theory Spec2Isabelle
  imports Main "HOL-Library.Word"
begin

section \<open>The POSIX timer wrapper of async-timer\<close>

text \<open>
  The repository's C source is one function, \<^verbatim>\<open>posix_timer\<close> in
  \<^verbatim>\<open>src/c_wrapper/posix.c\<close>:
  \<^verbatim>\<open>
  typedef void (*callback)(union sigval);

  timer_t posix_timer(callback cb, void* data) {
      timer_t id;
      struct sigevent sev = {
          .sigev_notify = SIGEV_THREAD,
          .sigev_notify_function = cb,
      };

      sev.sigev_value.sival_ptr = data;

      if (timer_create(CLOCK_REALTIME, &sev, &id) == -1) {
          return 0;
      } else {
          return id;
      }
  }
  \<close>
  It is straight-line code around one call into the host. The embedding below keeps the
  host outside: \<^verbatim>\<open>timer_create\<close> is a parameter (any function of the host's state),
  and every call the function makes is written to a log, so that what reaches the host
  and what does not can both be stated.
\<close>

subsection \<open>Data of the C interface\<close>

text \<open>
  Sizes are those of an LP64 host: \<^verbatim>\<open>int\<close> has 32 bits, a pointer 64. A function
  pointer and \<^verbatim>\<open>void*\<close> are addresses, \<open>0\<close> is the null pointer. \<^verbatim>\<open>timer_t\<close>
  comes from \<^verbatim>\<open>time.h\<close>; it is an address-sized scalar (\<^verbatim>\<open>void*\<close> in glibc), and
  the \<^verbatim>\<open>return 0\<close> of the source is its zero.
\<close>

type_synonym c_int = "32 word"
type_synonym ptr = "64 word"
type_synonym callback = "64 word"
type_synonym timer_t = "64 word"

text \<open>
  The macros \<^verbatim>\<open>CLOCK_REALTIME\<close> and \<^verbatim>\<open>SIGEV_THREAD\<close> are declared by the host's
  headers, not by the repository. They are kept symbolic, as members of the enumerations
  POSIX lists them in, so nothing below depends on their numeric values.
\<close>

datatype clockid_t =
    CLOCK_REALTIME
  | CLOCK_MONOTONIC
  | CLOCK_PROCESS_CPUTIME_ID
  | CLOCK_THREAD_CPUTIME_ID

datatype notify = SIGEV_NONE | SIGEV_SIGNAL | SIGEV_THREAD

text \<open>
  \<^verbatim>\<open>union sigval\<close>, read through its member \<^verbatim>\<open>sival_ptr\<close> (the only member the source
  touches), and \<^verbatim>\<open>struct sigevent\<close> with the five members POSIX gives it.
\<close>

record sigval =
  sival_ptr :: ptr

record sigevent =
  sigev_value :: sigval
  sigev_signo :: c_int
  sigev_notify :: notify
  sigev_notify_function :: callback
  sigev_notify_attributes :: ptr

record timespec =
  tv_sec :: "64 word"
  tv_nsec :: "64 word"

record itimerspec =
  it_interval :: timespec
  it_value :: timespec

subsection \<open>The host\<close>

text \<open>
  What the calling thread can do that is visible outside the function: the calls of the
  POSIX timer interface, releasing memory, and running a notification function itself.
  \<^verbatim>\<open>posix_timer\<close> uses the first only; the others are there so that their absence is a
  statement about the log.
\<close>

datatype host_call =
    Timer_create clockid_t sigevent
  | Timer_settime timer_t c_int itimerspec
  | Timer_delete timer_t
  | Free ptr
  | Run_callback callback sigval

fun arms :: "host_call \<Rightarrow> bool" where
  "arms (Timer_settime t flags its) = True"
| "arms c = False"

text \<open>
  What \<^verbatim>\<open>timer_create\<close> hands back: its \<^verbatim>\<open>int\<close> result, and the content of the
  local \<^verbatim>\<open>id\<close> after the call (what the host stored through the third argument).
\<close>

record tc_result =
  tc_ret :: c_int
  tc_id :: timer_t

text \<open>
  The host's \<^verbatim>\<open>timer_create\<close> is any function of the requested clock, the
  \<^verbatim>\<open>sigevent\<close> and the host's own state \<open>'h\<close> (its timer table, its limits,
  \<^verbatim>\<open>errno\<close>).
\<close>

type_synonym 'h timer_create_fn = "clockid_t \<Rightarrow> sigevent \<Rightarrow> 'h \<Rightarrow> tc_result \<times> 'h"

record 'h world =
  calls :: "host_call list"
  host :: 'h

definition timer_create ::
  "'h timer_create_fn \<Rightarrow> clockid_t \<Rightarrow> sigevent \<Rightarrow> 'h world \<Rightarrow> tc_result \<times> 'h world" where
  "timer_create impl clock sev w =
     (let (r, h') = impl clock sev (host w)
      in (r, \<lparr>calls = calls w @ [Timer_create clock sev], host = h'\<rparr>))"

subsection \<open>The function\<close>

text \<open>
  Lines 8 to 13: the designated initializer sets two members and zeroes the rest, then
  the assignment stores \<^verbatim>\<open>data\<close> in \<^verbatim>\<open>sev.sigev_value.sival_ptr\<close>.
\<close>

definition posix_timer_sev :: "callback \<Rightarrow> ptr \<Rightarrow> sigevent" where
  "posix_timer_sev cb data =
     (let sev = \<lparr>sigev_value = \<lparr>sival_ptr = 0\<rparr>,
                 sigev_signo = 0,
                 sigev_notify = SIGEV_THREAD,
                 sigev_notify_function = cb,
                 sigev_notify_attributes = 0\<rparr>
      in sev\<lparr>sigev_value := (sigev_value sev)\<lparr>sival_ptr := data\<rparr>\<rparr>)"

text \<open>Lines 15 to 19: the call, and the choice of the value returned.\<close>

definition posix_timer ::
  "'h timer_create_fn \<Rightarrow> callback \<Rightarrow> ptr \<Rightarrow> 'h world \<Rightarrow> timer_t \<times> 'h world" where
  "posix_timer impl cb data w =
     (let sev = posix_timer_sev cb data;
          (r, w') = timer_create impl CLOCK_REALTIME sev w
      in if tc_ret r = - 1 then (0, w') else (tc_id r, w'))"

text \<open>
  Two ways to look at a run, for the statements below: the reply of the host to the request
  \<^verbatim>\<open>posix_timer\<close> makes, and the calls logged between two states of the world.
\<close>

definition host_reply :: "'h timer_create_fn \<Rightarrow> callback \<Rightarrow> ptr \<Rightarrow> 'h world \<Rightarrow> tc_result" where
  "host_reply impl cb data w = fst (impl CLOCK_REALTIME (posix_timer_sev cb data) (host w))"

definition new_calls :: "'h world \<Rightarrow> 'h world \<Rightarrow> host_call list" where
  "new_calls w w' = drop (length (calls w)) (calls w')"

fun clock_of :: "host_call \<Rightarrow> clockid_t option" where
  "clock_of (Timer_create clock sev) = Some clock"
| "clock_of c = None"

subsection \<open>A host call that may not return\<close>

text \<open>
  In the definitions above the host's \<^verbatim>\<open>timer_create\<close> always comes back. To state
  that \<^verbatim>\<open>posix_timer\<close> adds no waiting of its own, the same code is run once more on a
  host whose call may block for ever: the host's function yields \<open>None\<close> when the call
  does not return, and so does everything that waits for it. Lines 8 to 13 are
  \<open>posix_timer_sev\<close> as before; the two definitions follow \<open>timer_create\<close> and
  \<open>posix_timer\<close> line by line.
\<close>

type_synonym 'h timer_create_opt_fn =
  "clockid_t \<Rightarrow> sigevent \<Rightarrow> 'h \<Rightarrow> (tc_result \<times> 'h) option"

definition timer_create_opt ::
  "'h timer_create_opt_fn \<Rightarrow> clockid_t \<Rightarrow> sigevent \<Rightarrow> 'h world
     \<Rightarrow> (tc_result \<times> 'h world) option" where
  "timer_create_opt impl clock sev w =
     (case impl clock sev (host w) of
        None \<Rightarrow> None
      | Some (r, h') \<Rightarrow> Some (r, \<lparr>calls = calls w @ [Timer_create clock sev], host = h'\<rparr>))"

definition posix_timer_opt ::
  "'h timer_create_opt_fn \<Rightarrow> callback \<Rightarrow> ptr \<Rightarrow> 'h world \<Rightarrow> (timer_t \<times> 'h world) option" where
  "posix_timer_opt impl cb data w =
     (let sev = posix_timer_sev cb data
      in case timer_create_opt impl CLOCK_REALTIME sev w of
           None \<Rightarrow> None
         | Some (r, w') \<Rightarrow> Some (if tc_ret r = - 1 then (0, w') else (tc_id r, w')))"

subsection \<open>Hosts to run the function on\<close>

text \<open>
  \<open>failing_host e\<close> refuses every request: it returns \<open>-1\<close>, leaves a stale value in
  \<^verbatim>\<open>id\<close> and keeps the cause \<open>e\<close> (the value of \<^verbatim>\<open>errno\<close>) as its state.
  \<open>counting_host\<close> grants every request and numbers its timers from its state, the
  next free index, as hosts whose \<^verbatim>\<open>timer_t\<close> is an index into a table do.
\<close>

definition failing_host :: "c_int \<Rightarrow> c_int timer_create_fn" where
  "failing_host e clock sev h = (\<lparr>tc_ret = - 1, tc_id = 0xDEAD\<rparr>, e)"

definition counting_host :: "nat timer_create_fn" where
  "counting_host clock sev h = (\<lparr>tc_ret = 0, tc_id = of_nat h\<rparr>, Suc h)"

definition start :: "'h \<Rightarrow> 'h world" where
  "start h = \<lparr>calls = [], host = h\<rparr>"

text \<open>
  \<open>returning impl\<close> is the host \<open>impl\<close> seen as one whose call may block, but never
  does; the call of \<open>hung_host\<close> never returns.
\<close>

definition returning :: "'h timer_create_fn \<Rightarrow> 'h timer_create_opt_fn" where
  "returning impl clock sev h = Some (impl clock sev h)"

definition hung_host :: "nat timer_create_opt_fn" where
  "hung_host clock sev h = None"

section \<open>Properties\<close>

subsection \<open>What a run is made of\<close>

lemma posix_timer_value:
  "fst (posix_timer impl cb data w) =
     (if tc_ret (host_reply impl cb data w) = - 1 then 0 else tc_id (host_reply impl cb data w))"
  by (simp add: posix_timer_def timer_create_def host_reply_def Let_def split: prod.split)

lemma posix_timer_calls:
  "calls (snd (posix_timer impl cb data w)) =
     calls w @ [Timer_create CLOCK_REALTIME (posix_timer_sev cb data)]"
  by (simp add: posix_timer_def timer_create_def Let_def split: prod.split)

lemma posix_timer_host:
  "host (snd (posix_timer impl cb data w)) =
     snd (impl CLOCK_REALTIME (posix_timer_sev cb data) (host w))"
  by (simp add: posix_timer_def timer_create_def Let_def split: prod.split)

lemma posix_timer_new_calls:
  "new_calls w (snd (posix_timer impl cb data w)) =
     [Timer_create CLOCK_REALTIME (posix_timer_sev cb data)]"
  by (simp add: new_calls_def posix_timer_calls)

lemma posix_timer_sev_fields:
  "sival_ptr (sigev_value (posix_timer_sev cb data)) = data"
  "sigev_signo (posix_timer_sev cb data) = 0"
  "sigev_notify (posix_timer_sev cb data) = SIGEV_THREAD"
  "sigev_notify_function (posix_timer_sev cb data) = cb"
  "sigev_notify_attributes (posix_timer_sev cb data) = 0"
  by (simp_all add: posix_timer_sev_def)

lemma failing_host_reply:
  "host_reply (failing_host e) cb data w = \<lparr>tc_ret = - 1, tc_id = 0xDEAD\<rparr>"
  by (simp add: host_reply_def failing_host_def)

lemma counting_host_reply:
  "host_reply counting_host cb data (start n) = \<lparr>tc_ret = 0, tc_id = of_nat n\<rparr>"
  by (simp add: host_reply_def counting_host_def start_def)

lemma posix_timer_opt_returning:
  "posix_timer_opt (returning impl) cb data w = Some (posix_timer impl cb data w)"
  by (simp add: posix_timer_opt_def timer_create_opt_def posix_timer_def timer_create_def
      returning_def Let_def split: prod.split)

lemma posix_timer_opt_hung:
  "posix_timer_opt hung_host cb data w = None"
  by (simp add: posix_timer_opt_def timer_create_opt_def hung_host_def)

subsection \<open>The value returned\<close>

text \<open>
  C1. When the host's \<^verbatim>\<open>timer_create\<close> returns \<open>-1\<close>, \<^verbatim>\<open>posix_timer\<close> returns 0,
  for every callback, context, host and host state, so whatever made the request fail and
  whatever was left in \<^verbatim>\<open>id\<close>. Any two failed registrations return the same value:
  the value returned carries nothing of the cause.
\<close>

theorem posix_timer_failure_sentinel:
  assumes "tc_ret (host_reply impl cb data w) = - 1"
    and "tc_ret (host_reply impl' cb' data' w') = - 1"
  shows "fst (posix_timer impl cb data w) = 0
    \<and> fst (posix_timer impl' cb' data' w') = fst (posix_timer impl cb data w)"
  using assms by (simp add: posix_timer_value)

text \<open>
  Two requests refused for different reasons (\<^verbatim>\<open>errno\<close> 11 and 22): both return 0.
\<close>

theorem posix_timer_failure_sentinel_witness:
  "tc_ret (host_reply (failing_host 11) 0x401000 42 (start 0)) = - 1
   \<and> tc_ret (host_reply (failing_host 22) 0x402000 7 (start 0)) = - 1
   \<and> fst (posix_timer (failing_host 11) 0x401000 42 (start 0)) = 0
   \<and> fst (posix_timer (failing_host 22) 0x402000 7 (start 0)) = 0"
proof -
  have first: "tc_ret (host_reply (failing_host 11) 0x401000 42 (start 0)) = - 1"
    by (simp add: failing_host_reply)
  have second: "tc_ret (host_reply (failing_host 22) 0x402000 7 (start 0)) = - 1"
    by (simp add: failing_host_reply)
  from first second posix_timer_failure_sentinel [OF first second]
  show ?thesis by simp
qed

text \<open>
  C2. When the host's \<^verbatim>\<open>timer_create\<close> succeeds (the source takes every result
  other than \<open>-1\<close> for success, so the \<open>0\<close> of POSIX too), \<^verbatim>\<open>posix_timer\<close>
  returns the identifier the host stored in \<^verbatim>\<open>id\<close>, unchanged.
\<close>

theorem posix_timer_success_id:
  assumes "tc_ret (host_reply impl cb data w) \<noteq> - 1"
  shows "fst (posix_timer impl cb data w) = tc_id (host_reply impl cb data w)"
  using assms by (simp add: posix_timer_value)

theorem posix_timer_success_id_witness:
  "tc_ret (host_reply counting_host 0x401000 42 (start 5)) \<noteq> - 1
   \<and> fst (posix_timer counting_host 0x401000 42 (start 5)) = 5"
proof -
  have granted: "tc_ret (host_reply counting_host 0x401000 42 (start 5)) \<noteq> - 1"
    by (simp add: counting_host_reply)
  from granted posix_timer_success_id [OF granted]
  show ?thesis by (simp add: counting_host_reply)
qed

text \<open>
  C3, as the code has it. Every run makes the one registration request and leaves the
  host as that request left it. If the request fails the value returned is 0. A value
  other than 0 is returned only after a request that succeeded, and is then the
  identifier the host stored; and a request that succeeds with an identifier other than
  0 returns that identifier. The function cannot promise more: it returns what the host
  stored, and the first request to \<open>counting_host\<close>, which succeeds with identifier 0,
  returns 0 as a failed one does.
\<close>

theorem posix_timer_no_partial_success:
  "new_calls w (snd (posix_timer impl cb data w))
     = [Timer_create CLOCK_REALTIME (posix_timer_sev cb data)]
   \<and> host (snd (posix_timer impl cb data w))
     = snd (impl CLOCK_REALTIME (posix_timer_sev cb data) (host w))
   \<and> (tc_ret (host_reply impl cb data w) = - 1 \<longrightarrow> fst (posix_timer impl cb data w) = 0)
   \<and> (fst (posix_timer impl cb data w) \<noteq> 0
        \<longrightarrow> tc_ret (host_reply impl cb data w) \<noteq> - 1
          \<and> fst (posix_timer impl cb data w) = tc_id (host_reply impl cb data w))
   \<and> (tc_ret (host_reply impl cb data w) \<noteq> - 1 \<and> tc_id (host_reply impl cb data w) \<noteq> 0
        \<longrightarrow> fst (posix_timer impl cb data w) = tc_id (host_reply impl cb data w)
          \<and> fst (posix_timer impl cb data w) \<noteq> 0)"
proof (intro conjI impI)
  show "new_calls w (snd (posix_timer impl cb data w))
      = [Timer_create CLOCK_REALTIME (posix_timer_sev cb data)]"
    by (rule posix_timer_new_calls)
next
  show "host (snd (posix_timer impl cb data w))
      = snd (impl CLOCK_REALTIME (posix_timer_sev cb data) (host w))"
    by (rule posix_timer_host)
next
  assume "tc_ret (host_reply impl cb data w) = - 1"
  then show "fst (posix_timer impl cb data w) = 0"
    by (simp add: posix_timer_value)
next
  assume some: "fst (posix_timer impl cb data w) \<noteq> 0"
  show "tc_ret (host_reply impl cb data w) \<noteq> - 1"
  proof
    assume "tc_ret (host_reply impl cb data w) = - 1"
    then have "fst (posix_timer impl cb data w) = 0"
      by (simp add: posix_timer_value)
    with some show False ..
  qed
  then show "fst (posix_timer impl cb data w) = tc_id (host_reply impl cb data w)"
    by (simp add: posix_timer_value)
next
  assume granted:
    "tc_ret (host_reply impl cb data w) \<noteq> - 1 \<and> tc_id (host_reply impl cb data w) \<noteq> 0"
  then show same: "fst (posix_timer impl cb data w) = tc_id (host_reply impl cb data w)"
    by (simp add: posix_timer_value)
  from granted same show "fst (posix_timer impl cb data w) \<noteq> 0"
    by simp
qed

text \<open>
  A refused request returns 0; the sixth request to \<open>counting_host\<close> is granted with
  identifier 5 and returns 5. Both runs made their one request.
\<close>

theorem posix_timer_no_partial_success_witness:
  "tc_ret (host_reply (failing_host 11) 0x401000 42 (start 0)) = - 1
   \<and> fst (posix_timer (failing_host 11) 0x401000 42 (start 0)) = 0
   \<and> new_calls (start 0) (snd (posix_timer (failing_host 11) 0x401000 42 (start 0)))
       = [Timer_create CLOCK_REALTIME (posix_timer_sev 0x401000 42)]
   \<and> tc_ret (host_reply counting_host 0x401000 42 (start 5)) \<noteq> - 1
   \<and> tc_id (host_reply counting_host 0x401000 42 (start 5)) \<noteq> 0
   \<and> fst (posix_timer counting_host 0x401000 42 (start 5)) \<noteq> 0
   \<and> fst (posix_timer counting_host 0x401000 42 (start 5)) = 5
   \<and> new_calls (start 5) (snd (posix_timer counting_host 0x401000 42 (start 5)))
       = [Timer_create CLOCK_REALTIME (posix_timer_sev 0x401000 42)]"
proof -
  note refused_run =
    posix_timer_no_partial_success
      [where impl = "failing_host 11" and cb = "0x401000" and data = 42 and w = "start 0"]
  note granted_run =
    posix_timer_no_partial_success
      [where impl = counting_host and cb = "0x401000" and data = 42 and w = "start 5"]
  have refused: "tc_ret (host_reply (failing_host 11) 0x401000 42 (start 0)) = - 1"
    by (simp add: failing_host_reply)
  have granted: "tc_ret (host_reply counting_host 0x401000 42 (start 5)) \<noteq> - 1
      \<and> tc_id (host_reply counting_host 0x401000 42 (start 5)) \<noteq> 0"
    by (simp add: counting_host_reply)
  have five: "tc_id (host_reply counting_host 0x401000 42 (start 5)) = 5"
    by (simp add: counting_host_reply)
  from refused_run refused
  have zero: "fst (posix_timer (failing_host 11) 0x401000 42 (start 0)) = 0"
    by blast
  from granted_run granted
  have "fst (posix_timer counting_host 0x401000 42 (start 5))
        = tc_id (host_reply counting_host 0x401000 42 (start 5))
      \<and> fst (posix_timer counting_host 0x401000 42 (start 5)) \<noteq> 0"
    by blast
  with five have ident: "fst (posix_timer counting_host 0x401000 42 (start 5)) = 5
      \<and> fst (posix_timer counting_host 0x401000 42 (start 5)) \<noteq> 0"
    by simp
  from refused_run
  have made_refused: "new_calls (start 0) (snd (posix_timer (failing_host 11) 0x401000 42 (start 0)))
      = [Timer_create CLOCK_REALTIME (posix_timer_sev 0x401000 42)]"
    by (rule conjunct1)
  from granted_run
  have made_granted: "new_calls (start 5) (snd (posix_timer counting_host 0x401000 42 (start 5)))
      = [Timer_create CLOCK_REALTIME (posix_timer_sev 0x401000 42)]"
    by (rule conjunct1)
  from refused granted zero ident made_refused made_granted show ?thesis
    by blast
qed

text \<open>
  The first request to \<open>counting_host\<close>, with a callback that is not null: the host
  grants it (result 0, one timer in its table afterwards), and the value returned is 0.
\<close>

theorem posix_timer_sentinel_after_success:
  "(0x401000 :: callback) \<noteq> 0
   \<and> tc_ret (host_reply counting_host 0x401000 42 (start 0)) = 0
   \<and> new_calls (start 0) (snd (posix_timer counting_host 0x401000 42 (start 0)))
       = [Timer_create CLOCK_REALTIME (posix_timer_sev 0x401000 42)]
   \<and> host (snd (posix_timer counting_host 0x401000 42 (start 0))) = 1
   \<and> fst (posix_timer counting_host 0x401000 42 (start 0)) = 0"
proof -
  have "host (snd (posix_timer counting_host 0x401000 42 (start 0))) = 1"
    by (simp add: posix_timer_host counting_host_def start_def)
  then show ?thesis
    by (simp add: posix_timer_value posix_timer_new_calls counting_host_reply)
qed

subsection \<open>What is handed to the host\<close>

text \<open>
  C4. The context pointer reaches the host as it was given: in the \<^verbatim>\<open>sigevent\<close> of
  the one call the function makes, \<^verbatim>\<open>sigev_value.sival_ptr\<close> is \<^verbatim>\<open>data\<close>, for every
  value of \<^verbatim>\<open>data\<close>. The function makes no other call, so it does not release the
  pointer, and nothing of the request depends on what the pointer points to.
\<close>

theorem posix_timer_context_passthrough:
  "\<exists>sev. new_calls w (snd (posix_timer impl cb data w)) = [Timer_create CLOCK_REALTIME sev]
     \<and> sival_ptr (sigev_value sev) = data
     \<and> Free data \<notin> set (new_calls w (snd (posix_timer impl cb data w)))"
  by (simp add: posix_timer_new_calls posix_timer_sev_fields)

text \<open>
  C5. The \<^verbatim>\<open>sigevent\<close> handed to the host asks for notification by thread
  (\<^verbatim>\<open>SIGEV_THREAD\<close>) with the callback given as the notification function, and the
  calling thread does not run the callback itself, with any argument \<open>v\<close>. That the host
  then runs it on a thread of its own is the host's part of \<^verbatim>\<open>SIGEV_THREAD\<close>.
\<close>

theorem posix_timer_thread_notification:
  "\<exists>sev. new_calls w (snd (posix_timer impl cb data w)) = [Timer_create CLOCK_REALTIME sev]
     \<and> sigev_notify sev = SIGEV_THREAD
     \<and> sigev_notify_function sev = cb
     \<and> Run_callback cb v \<notin> set (new_calls w (snd (posix_timer impl cb data w)))"
  by (simp add: posix_timer_new_calls posix_timer_sev_fields)

text \<open>
  C6. Every run asks for exactly one timer, and asks for it on \<^verbatim>\<open>CLOCK_REALTIME\<close>:
  the clocks named in the calls of a run are that one clock, once.
\<close>

theorem posix_timer_realtime_clock:
  "map clock_of (new_calls w (snd (posix_timer impl cb data w))) = [Some CLOCK_REALTIME]"
  by (simp add: posix_timer_new_calls)

text \<open>
  C7. The one thing a run does to the host is the \<^verbatim>\<open>timer_create\<close> call: the log grows
  by that call alone, no call in it arms a timer, and the host is left in the state in
  which \<^verbatim>\<open>timer_create\<close> returned. No expiration time and no interval is part of the
  request, so the timer is as \<^verbatim>\<open>timer_create\<close> made it.
\<close>

theorem posix_timer_only_registers:
  "new_calls w (snd (posix_timer impl cb data w))
     = [Timer_create CLOCK_REALTIME (posix_timer_sev cb data)]
   \<and> filter arms (new_calls w (snd (posix_timer impl cb data w))) = []
   \<and> host (snd (posix_timer impl cb data w))
     = snd (impl CLOCK_REALTIME (posix_timer_sev cb data) (host w))"
proof -
  let ?made = "new_calls w (snd (posix_timer impl cb data w))"
  have one: "?made = [Timer_create CLOCK_REALTIME (posix_timer_sev cb data)]"
    by (rule posix_timer_new_calls)
  then have "filter arms ?made = []"
    by simp
  with one show ?thesis
    by (simp add: posix_timer_host)
qed

text \<open>
  C8. On a host whose \<^verbatim>\<open>timer_create\<close> may block, \<^verbatim>\<open>posix_timer\<close> returns whenever
  that one call returns, for every callback, context, host and state: it comes back with
  a value, having made the registration call and no other (so no call that waits for a
  timer, and no second round), and with the host as the call left it. The function waits
  for nothing but the call itself.
\<close>

theorem posix_timer_returns:
  assumes "impl CLOCK_REALTIME (posix_timer_sev cb data) (host w) = Some (r, h')"
  shows "\<exists>v w'. posix_timer_opt impl cb data w = Some (v, w')
     \<and> new_calls w w' = [Timer_create CLOCK_REALTIME (posix_timer_sev cb data)]
     \<and> host w' = h'"
proof -
  let ?sev = "posix_timer_sev cb data"
  let ?w' = "\<lparr>calls = calls w @ [Timer_create CLOCK_REALTIME ?sev], host = h'\<rparr>"
  from assms have called: "timer_create_opt impl CLOCK_REALTIME ?sev w = Some (r, ?w')"
    by (simp add: timer_create_opt_def)
  then have "posix_timer_opt impl cb data w = Some (if tc_ret r = - 1 then 0 else tc_id r, ?w')"
    by (simp add: posix_timer_opt_def)
  moreover have "new_calls w ?w' = [Timer_create CLOCK_REALTIME ?sev]"
    by (simp add: new_calls_def)
  moreover have "host ?w' = h'"
    by simp
  ultimately show ?thesis
    by blast
qed

text \<open>
  The sixth request to \<open>counting_host\<close>, taken as a host whose call returns: the run
  comes back, with the one call made and the host's counter at 6.
\<close>

theorem posix_timer_returns_witness:
  "returning counting_host CLOCK_REALTIME (posix_timer_sev 0x401000 42) (host (start 5))
     = Some (\<lparr>tc_ret = 0, tc_id = 5\<rparr>, 6)
   \<and> (\<exists>v w'. posix_timer_opt (returning counting_host) 0x401000 42 (start 5) = Some (v, w')
        \<and> new_calls (start 5) w' = [Timer_create CLOCK_REALTIME (posix_timer_sev 0x401000 42)]
        \<and> host w' = 6)"
proof -
  have answered: "returning counting_host CLOCK_REALTIME (posix_timer_sev 0x401000 42) (host (start 5))
      = Some (\<lparr>tc_ret = 0, tc_id = 5\<rparr>, 6)"
    by (simp add: returning_def counting_host_def start_def)
  from answered
    posix_timer_returns
      [where impl = "returning counting_host" and cb = "0x401000" and data = 42
        and w = "start 5", OF answered]
  show ?thesis
    by blast
qed

text \<open>
  C9. Nothing is checked before the call. For every callback and every context the
  request reaches the host with both in it unchanged, and so it does for the null
  callback and the null context.
\<close>

theorem posix_timer_no_validation:
  "(\<exists>sev. new_calls w (snd (posix_timer impl cb data w)) = [Timer_create CLOCK_REALTIME sev]
      \<and> sigev_notify_function sev = cb \<and> sival_ptr (sigev_value sev) = data)
   \<and> (\<exists>sev. new_calls w (snd (posix_timer impl 0 0 w)) = [Timer_create CLOCK_REALTIME sev]
      \<and> sigev_notify_function sev = 0 \<and> sival_ptr (sigev_value sev) = 0)"
  by (simp add: posix_timer_new_calls posix_timer_sev_fields)

text \<open>
  C10. The members of the \<^verbatim>\<open>sigevent\<close> that the source does not name are zero in the
  request: \<^verbatim>\<open>sigev_signo\<close> is 0 and \<^verbatim>\<open>sigev_notify_attributes\<close> is the null pointer,
  which asks the host for a notification thread with default attributes.
\<close>

theorem posix_timer_zeroed_members:
  "\<exists>sev. new_calls w (snd (posix_timer impl cb data w)) = [Timer_create CLOCK_REALTIME sev]
     \<and> sigev_signo sev = 0
     \<and> sigev_notify_attributes sev = 0"
  by (simp add: posix_timer_new_calls posix_timer_sev_fields)

end
